theory Spec2Isabelle
  imports Complex_Main "HOL-Library.AList"
begin

section \<open>Values of the program\<close>

text \<open>
  The program is \<^verbatim>\<open>src/src/app_prod.py\<close>. Python floats are modelled by the real
  numbers: arithmetic on finite values is exact, and the special values that a NumPy
  division can produce (infinities and NaN) are added explicitly where the program divides.
  Dictionaries that the program builds and hands to \<^verbatim>\<open>jsonify\<close> are association lists
  in insertion order with distinct keys; JSON values are the datatype \<open>json\<close>, in which
  \<open>JInt\<close> is a Python \<^verbatim>\<open>int\<close> (of any size) and \<open>JNum\<close> a Python \<^verbatim>\<open>float\<close>.
\<close>

datatype json =
    JNull
  | JBool bool
  | JInt int
  | JNum real
  | JStr string
  | JArr "json list"
  | JObj "(string \<times> json) list"

type_synonym dict = "(string \<times> json) list"

datatype py_exception =
    KeyError string
  | TypeError string
  | ValueError string
  | OverflowError string
  | Exception string

text \<open>\<^verbatim>\<open>str(e)\<close>: a \<^verbatim>\<open>KeyError\<close> prints the repr of its key.\<close>

fun str_exc :: "py_exception \<Rightarrow> string" where
  "str_exc (KeyError k) = [CHR 39] @ k @ [CHR 39]"
| "str_exc (TypeError m) = m"
| "str_exc (ValueError m) = m"
| "str_exc (OverflowError m) = m"
| "str_exc (Exception m) = m"

text \<open>Sequencing of computations that may raise: the first exception wins.\<close>

fun and_then :: "'e + 'a \<Rightarrow> ('a \<Rightarrow> 'e + 'b) \<Rightarrow> 'e + 'b" where
  "and_then (Inl e) f = Inl e"
| "and_then (Inr v) f = f v"

text \<open>\<^verbatim>\<open>d[k]\<close> on a dictionary raises \<^verbatim>\<open>KeyError\<close> for a missing key.\<close>

definition getitem :: "dict \<Rightarrow> string \<Rightarrow> py_exception + json" where
  "getitem d k = (case map_of d k of None \<Rightarrow> Inl (KeyError k) | Some v \<Rightarrow> Inr v)"

text \<open>\<^verbatim>\<open>d.get(k, default)\<close>.\<close>

definition get_default :: "dict \<Rightarrow> string \<Rightarrow> json \<Rightarrow> json" where
  "get_default d k dflt = (case map_of d k of None \<Rightarrow> dflt | Some v \<Rightarrow> v)"

text \<open>\<^verbatim>\<open>d.get(k)\<close>: \<^verbatim>\<open>None\<close> for a missing key.\<close>

definition get :: "dict \<Rightarrow> string \<Rightarrow> json" where
  "get d k = get_default d k JNull"

text \<open>Python's truth value of a JSON value, as \<^verbatim>\<open>not x\<close> tests it.\<close>

fun truthy :: "json \<Rightarrow> bool" where
  "truthy JNull = False"
| "truthy (JBool b) = b"
| "truthy (JInt i) = (i \<noteq> 0)"
| "truthy (JNum x) = (x \<noteq> 0)"
| "truthy (JStr s) = (s \<noteq> [])"
| "truthy (JArr xs) = (xs \<noteq> [])"
| "truthy (JObj kv) = (kv \<noteq> [])"

fun type_name :: "json \<Rightarrow> string" where
  "type_name JNull = ''NoneType''"
| "type_name (JBool b) = ''bool''"
| "type_name (JInt i) = ''int''"
| "type_name (JNum x) = ''float''"
| "type_name (JStr s) = ''str''"
| "type_name (JArr xs) = ''list''"
| "type_name (JObj kv) = ''dict''"

text \<open>
  The conversion of an \<^verbatim>\<open>int\<close> to a \<^verbatim>\<open>float\<close> raises \<^verbatim>\<open>OverflowError\<close> when
  the integer rounds to a value beyond the largest double, \<open>2\<^sup>1\<^sup>0\<^sup>2\<^sup>4 - 2\<^sup>9\<^sup>7\<^sup>1\<close>: that
  is from \<open>2\<^sup>1\<^sup>0\<^sup>2\<^sup>4 - 2\<^sup>9\<^sup>7\<^sup>0\<close> on, in absolute value.
\<close>

definition int_fits_float :: "int \<Rightarrow> bool" where
  "int_fits_float i = (\<bar>i\<bar> < 2 ^ 1024 - 2 ^ 970)"

text \<open>
  The value of \<^verbatim>\<open>ndvi_mean\<close> as the predictions use it. A float is itself,
  \<^verbatim>\<open>True\<close> and \<^verbatim>\<open>False\<close> are 1 and 0. An \<^verbatim>\<open>int\<close> is compared with the
  thresholds exactly; \<^verbatim>\<open>80 + (ndvi_mean * 100)\<close> is then an exact \<^verbatim>\<open>int\<close>, which
  the addition of the noise converts to a float, and that raises \<^verbatim>\<open>OverflowError\<close>
  when it does not fit. Anything else raises \<^verbatim>\<open>TypeError\<close> at the first comparison
  \<^verbatim>\<open>ndvi_mean < 0.3\<close>.
\<close>

fun as_number :: "json \<Rightarrow> py_exception + real" where
  "as_number (JNum x) = Inr x"
| "as_number (JBool b) = Inr (if b then 1 else 0)"
| "as_number (JInt i) =
     (if int_fits_float (80 + i * 100) then Inr (of_int i)
      else Inl (OverflowError ''int too large to convert to float''))"
| "as_number v =
     Inl (TypeError ([CHR 39] @ ''<'' @ [CHR 39] @ '' not supported between instances of ''
        @ [CHR 39] @ type_name v @ [CHR 39] @ '' and '' @ [CHR 39] @ ''float'' @ [CHR 39]))"

section \<open>Formatting with \<^verbatim>\<open>:.0f\<close>\<close>

text \<open>
  \<^verbatim>\<open>f"{x:.0f}"\<close> prints \<open>x\<close> with no decimals, rounding to the nearest integer and a
  tie to the even one; a negative \<open>x\<close> keeps its sign, also when it rounds to zero.
\<close>

definition round_half_even :: "real \<Rightarrow> int" where
  "round_half_even x =
     (let f = \<lfloor>x\<rfloor>; d = x - of_int f
      in if d < 1 / 2 then f else if 1 / 2 < d then f + 1 else if even f then f else f + 1)"

definition digit_char :: "nat \<Rightarrow> char" where
  "digit_char d = ''0123456789'' ! d"

function show_nat :: "nat \<Rightarrow> string" where
  "show_nat n = (if n < 10 then [digit_char n] else show_nat (n div 10) @ [digit_char (n mod 10)])"
  by pat_completeness auto
termination
  by (relation "measure (\<lambda>n. n)") auto

declare show_nat.simps [simp del]

definition format_0f :: "real \<Rightarrow> string" where
  "format_0f x = (if x < 0 then ''-'' else []) @ show_nat (nat \<bar>round_half_even x\<bar>)"

section \<open>Recommendations\<close>

text \<open>The module constant \<^verbatim>\<open>NUTRIENT_THRESHOLDS\<close>.\<close>

definition NUTRIENT_THRESHOLDS :: "string \<rightharpoonup> real" where
  "NUTRIENT_THRESHOLDS =
     [''nitrogen_low'' \<mapsto> 80, ''nitrogen_medium'' \<mapsto> 120, ''nitrogen_high'' \<mapsto> 160]"

text \<open>
  \<^verbatim>\<open>generate_recommendations(growth_stage, nitrogen_level)\<close>: the dictionary is built
  with an empty \<^verbatim>\<open>'recommendations'\<close> entry, which the branch of the stage then
  overwrites in place; an unknown stage leaves it empty.
\<close>

definition generate_recommendations :: "string \<Rightarrow> real \<Rightarrow> dict" where
  "generate_recommendations growth_stage nitrogen_level =
     (let recommendations =
        [(''growth_stage'', JStr growth_stage),
         (''nitrogen_level'', JNum nitrogen_level),
         (''nitrogen_status'', JStr
            (if nitrogen_level < the (NUTRIENT_THRESHOLDS ''nitrogen_low'') then ''low''
             else if nitrogen_level < the (NUTRIENT_THRESHOLDS ''nitrogen_medium'') then ''medium''
             else ''high'')),
         (''recommendations'', JObj [])]
      in
      if growth_stage = ''vegetative'' then
        AList.update ''recommendations'' (JObj
          [(''irrigation'', JStr ''Apply 1500-2000 L/ha weekly, maintain soil moisture''),
           (''fertilizer'', JStr (''Apply '' @ format_0f (max 0 (120 - nitrogen_level))
              @ '' kg/ha N as basal dose'')),
           (''management'', JStr ''Focus on leaf development, control weeds'')])
          recommendations
      else if growth_stage = ''tuber_initiation'' then
        AList.update ''recommendations'' (JObj
          [(''irrigation'', JStr ''Apply 2000-2500 L/ha weekly, critical for tuber formation''),
           (''fertilizer'', JStr (''Apply '' @ format_0f (max 0 (140 - nitrogen_level))
              @ '' kg/ha N as top dressing'')),
           (''management'', JStr ''Ensure adequate soil moisture, monitor for pests'')])
          recommendations
      else if growth_stage = ''tuber_bulking'' then
        AList.update ''recommendations'' (JObj
          [(''irrigation'', JStr ''Apply 2500-3000 L/ha weekly, maximum water requirement''),
           (''fertilizer'', JStr (''Apply '' @ format_0f (max 0 (160 - nitrogen_level))
              @ '' kg/ha N + 60 kg/ha K'')),
           (''management'', JStr ''Critical stage for yield, maintain optimal conditions'')])
          recommendations
      else if growth_stage = ''maturation'' then
        AList.update ''recommendations'' (JObj
          [(''irrigation'', JStr ''Reduce to 1000-1500 L/ha, prepare for harvest''),
           (''fertilizer'', JStr ''No additional N required, focus on K for quality''),
           (''management'', JStr ''Prepare for harvest, monitor for diseases'')])
          recommendations
      else recommendations)"

text \<open>
  The fertilizer text of a result: the \<^verbatim>\<open>'fertilizer'\<close> entry of its
  \<^verbatim>\<open>'recommendations'\<close> entry, when there is one.
\<close>

definition fertilizer_text :: "dict \<Rightarrow> string option" where
  "fertilizer_text r =
     (case map_of r ''recommendations'' of
        Some (JObj body) \<Rightarrow> (case map_of body ''fertilizer'' of Some (JStr s) \<Rightarrow> Some s | _ \<Rightarrow> None)
      | _ \<Rightarrow> None)"

section \<open>Growth stage and nitrogen level\<close>

text \<open>
  The two predictions that \<^verbatim>\<open>predict_gee\<close> computes inline from \<^verbatim>\<open>ndvi_mean\<close>;
  \<open>noise\<close> is the value that \<^verbatim>\<open>np.random.normal(0, 10)\<close> returns.
\<close>

definition predict_growth_stage :: "real \<Rightarrow> string" where
  "predict_growth_stage ndvi_mean =
     (if ndvi_mean < 0.3 then ''vegetative''
      else if ndvi_mean < 0.5 then ''tuber_initiation''
      else if ndvi_mean < 0.7 then ''tuber_bulking''
      else ''maturation'')"

text \<open>\<^verbatim>\<open>np.clip(x, lo, hi)\<close> on a finite value: \<^verbatim>\<open>minimum(maximum(x, lo), hi)\<close>.\<close>

definition clip :: "real \<Rightarrow> real \<Rightarrow> real \<Rightarrow> real" where
  "clip x lo hi = min (max x lo) hi"

definition predict_nitrogen_level :: "real \<Rightarrow> real \<Rightarrow> real" where
  "predict_nitrogen_level ndvi_mean noise = clip (80 + (ndvi_mean * 100) + noise) 40 200"

section \<open>Vegetation indices\<close>

text \<open>
  A band is a NumPy array; the model keeps its pixels in a list (a one-dimensional array)
  of finite values, which \<^verbatim>\<open>.astype(float)\<close> leaves as they are. A binary operation
  on two arrays works pixel by pixel; an array of one pixel is broadcast against the
  other, and any other difference of lengths raises \<^verbatim>\<open>ValueError\<close> (its message,
  which goes on to name the two shapes, is cut short here).
\<close>

definition broadcast2 :: "('a \<Rightarrow> 'b \<Rightarrow> 'c) \<Rightarrow> 'a list \<Rightarrow> 'b list \<Rightarrow> py_exception + 'c list" where
  "broadcast2 f a b =
     (if length a = length b then Inr (map2 f a b)
      else if length a = 1 then Inr (map (f (hd a)) b)
      else if length b = 1 then Inr (map (\<lambda>x. f x (hd b)) a)
      else Inl (ValueError ''operands could not be broadcast together''))"

text \<open>
  A float after a division. NumPy does not raise on a zero divisor: a non-zero value
  divided by zero is an infinity of the sign of the dividend (the zero divisors that
  arise here are sums, hence positive zeros), and zero divided by zero is NaN.
\<close>

datatype npfloat = Finite real | PosInf | NegInf | NaN

definition true_divide :: "real \<Rightarrow> real \<Rightarrow> npfloat" where
  "true_divide x y =
     (if y \<noteq> 0 then Finite (x / y)
      else if 0 < x then PosInf
      else if x < 0 then NegInf
      else NaN)"

text \<open>\<^verbatim>\<open>np.clip\<close> on such a float: an infinity goes to the bound, NaN stays NaN.\<close>

fun np_clip :: "npfloat \<Rightarrow> real \<Rightarrow> real \<Rightarrow> npfloat" where
  "np_clip (Finite x) lo hi = Finite (clip x lo hi)"
| "np_clip PosInf lo hi = Finite hi"
| "np_clip NegInf lo hi = Finite lo"
| "np_clip NaN lo hi = NaN"

text \<open>The three formulas of \<^verbatim>\<open>compute_vegetation_indices\<close>, each with its clip.\<close>

definition ndvi :: "real list \<Rightarrow> real list \<Rightarrow> py_exception + npfloat list" where
  "ndvi nir red =
     and_then (broadcast2 (-) nir red) (\<lambda>num.
     and_then (broadcast2 (+) nir red) (\<lambda>s.
     and_then (broadcast2 true_divide num (map (\<lambda>x. x + 0.00000001) s)) (\<lambda>q.
     Inr (map (\<lambda>v. np_clip v (-1) 1) q))))"

definition ndre :: "real list \<Rightarrow> real list \<Rightarrow> py_exception + npfloat list" where
  "ndre nir red_edge =
     and_then (broadcast2 (-) nir red_edge) (\<lambda>num.
     and_then (broadcast2 (+) nir red_edge) (\<lambda>s.
     and_then (broadcast2 true_divide num (map (\<lambda>x. x + 0.00000001) s)) (\<lambda>q.
     Inr (map (\<lambda>v. np_clip v (-1) 1) q))))"

definition evi :: "real list \<Rightarrow> real list \<Rightarrow> real list \<Rightarrow> py_exception + npfloat list" where
  "evi nir red blue =
     and_then (broadcast2 (-) nir red) (\<lambda>d.
     and_then (broadcast2 (+) nir (map (\<lambda>x. 6 * x) red)) (\<lambda>s.
     and_then (broadcast2 (-) s (map (\<lambda>x. 7.5 * x) blue)) (\<lambda>t.
     and_then (broadcast2 true_divide (map (\<lambda>x. 2.5 * x) d) (map (\<lambda>x. x + 1) t)) (\<lambda>q.
     Inr (map (\<lambda>v. np_clip v (-1) 1) q)))))"

text \<open>
  \<^verbatim>\<open>compute_vegetation_indices(bands)\<close>: each index is computed when its bands are
  among the keys, in the order NDVI, NDRE, EVI; an exception of a formula leaves the
  function at once.
\<close>

definition compute_vegetation_indices ::
  "(string \<rightharpoonup> real list) \<Rightarrow> py_exception + (string \<rightharpoonup> npfloat list)" where
  "compute_vegetation_indices bands =
     and_then
       (if ''B08'' \<in> dom bands \<and> ''B04'' \<in> dom bands
        then and_then (ndvi (the (bands ''B08'')) (the (bands ''B04'')))
               (\<lambda>v. Inr (Map.empty(''NDVI'' \<mapsto> v)))
        else Inr Map.empty)
       (\<lambda>indices1.
     and_then
       (if ''B08'' \<in> dom bands \<and> ''B05'' \<in> dom bands
        then and_then (ndre (the (bands ''B08'')) (the (bands ''B05'')))
               (\<lambda>v. Inr (indices1(''NDRE'' \<mapsto> v)))
        else Inr indices1)
       (\<lambda>indices2.
        if ''B08'' \<in> dom bands \<and> ''B04'' \<in> dom bands \<and> ''B02'' \<in> dom bands
        then and_then (evi (the (bands ''B08'')) (the (bands ''B04'')) (the (bands ''B02'')))
               (\<lambda>v. Inr (indices2(''EVI'' \<mapsto> v)))
        else Inr indices2))"

text \<open>An index value is within \<open>[-1, 1]\<close> when it is a finite number of that interval.\<close>

fun in_unit_range :: "npfloat \<Rightarrow> bool" where
  "in_unit_range (Finite x) = (-1 \<le> x \<and> x \<le> 1)"
| "in_unit_range v = False"

section \<open>The prediction endpoint\<close>

text \<open>
  Modelled from the spec: the provenance of a summary, live or demo. The module
  \<^verbatim>\<open>gee_integration.py\<close> that serves the data is not among the sources; the comment
  at its call in \<^verbatim>\<open>predict_gee\<close> reads "Live if available, Demo otherwise".
\<close>

datatype gee_mode = Live | Demo

text \<open>
  What \<^verbatim>\<open>predict_gee\<close> takes from outside this file is a parameter of the model.
  The object \<^verbatim>\<open>gee_integration\<close> has two methods, which may raise or return, and it
  serves live or demo data, which \<^verbatim>\<open>predict_gee\<close> never reads. The environment also
  holds the flag \<^verbatim>\<open>GEE_AVAILABLE\<close>, the Earth Engine constructor
  \<^verbatim>\<open>ee.Geometry.Point([lon, lat]).buffer(radius)\<close> (with \<^verbatim>\<open>import ee\<close>, which may
  raise as well) and Python's \<^verbatim>\<open>float\<close> on a string (\<open>None\<close> when it raises).
\<close>

record ('aoi, 'img) GEEIntegration =
  mode :: gee_mode
  get_weekly_sentinel2_data :: "'aoi option \<Rightarrow> py_exception + 'img"
  get_weekly_summary :: "'img \<Rightarrow> py_exception + dict"

record ('aoi, 'img) environment =
  GEE_AVAILABLE :: bool
  gee_integration :: "('aoi, 'img) GEEIntegration option"
  ee_point_buffer :: "npfloat \<Rightarrow> npfloat \<Rightarrow> real \<Rightarrow> py_exception + 'aoi"
  float_of_str :: "string \<Rightarrow> npfloat option"

text \<open>
  \<^verbatim>\<open>float(v)\<close> on a JSON value: a float is itself, an \<^verbatim>\<open>int\<close> is converted when
  it fits and raises \<^verbatim>\<open>OverflowError\<close> otherwise, a string is parsed, and a list or a
  dictionary raises \<^verbatim>\<open>TypeError\<close>.
\<close>

fun py_float :: "(string \<Rightarrow> npfloat option) \<Rightarrow> json \<Rightarrow> py_exception + npfloat" where
  "py_float p (JNum x) = Inr (Finite x)"
| "py_float p (JBool b) = Inr (Finite (if b then 1 else 0))"
| "py_float p (JInt i) =
     (if int_fits_float i then Inr (Finite (of_int i))
      else Inl (OverflowError ''int too large to convert to float''))"
| "py_float p (JStr s) =
     (case p s of
        None \<Rightarrow> Inl (ValueError (''could not convert string to float: '' @ [CHR 39] @ s @ [CHR 39]))
      | Some x \<Rightarrow> Inr x)"
| "py_float p v =
     Inl (TypeError (''float() argument must be a string or a real number, not ''
        @ [CHR 39] @ type_name v @ [CHR 39]))"

text \<open>The body of the inner \<^verbatim>\<open>try\<close>: the area of interest, 1 km around the point.\<close>

definition make_aoi :: "('aoi, 'img) environment \<Rightarrow> json \<Rightarrow> json \<Rightarrow> py_exception + 'aoi" where
  "make_aoi env lon lat =
     and_then (py_float (float_of_str env) lon) (\<lambda>x.
     and_then (py_float (float_of_str env) lat) (\<lambda>y.
     ee_point_buffer env x y 1000))"

text \<open>
  The optional area of interest of a request: both coordinates must be given, and any
  exception of the conversion or of the constructor is caught and leaves \<^verbatim>\<open>aoi = None\<close>.
\<close>

definition request_aoi :: "('aoi, 'img) environment \<Rightarrow> dict \<Rightarrow> 'aoi option" where
  "request_aoi env data =
     (let lat = get data ''lat'';
          lon = get data ''lon''
      in if lat \<noteq> JNull \<and> lon \<noteq> JNull
         then (case make_aoi env lon lat of Inl e \<Rightarrow> None | Inr a \<Rightarrow> Some a)
         else None)"

text \<open>
  The predictions and the dictionary of the answer, from the summary and its
  \<^verbatim>\<open>ndvi_mean\<close>; \<open>noise\<close> is the draw of \<^verbatim>\<open>np.random.normal(0, 10)\<close> and
  \<open>now\<close> is \<^verbatim>\<open>datetime.now().isoformat()\<close>.
\<close>

definition predictions_response :: "dict \<Rightarrow> real \<Rightarrow> real \<Rightarrow> string \<Rightarrow> dict" where
  "predictions_response summary ndvi_mean noise now =
     (let growth_stage = predict_growth_stage ndvi_mean;
          nitrogen_level = predict_nitrogen_level ndvi_mean noise;
          recommendations = generate_recommendations growth_stage nitrogen_level
      in [(''success'', JBool True),
          (''predictions'', JObj
             [(''growth_stage'', JStr growth_stage),
              (''nitrogen_level'', JNum nitrogen_level),
              (''ndvi_mean'', JNum ndvi_mean)]),
          (''recommendations'', JObj recommendations),
          (''timestamp'', JStr now),
          (''data_source'', JStr ''Google Earth Engine''),
          (''gee_summary'', JObj summary)])"

text \<open>
  \<^verbatim>\<open>predict_gee()\<close>. The request body \<open>data\<close> is the JSON object of the request (the
  empty one when there is none; a body that is not an object is outside the model). The
  result is the dictionary given to \<^verbatim>\<open>jsonify\<close> and the HTTP status; an exception
  anywhere after the two guards becomes the answer 500 with its text.
\<close>

definition predict_gee ::
  "('aoi, 'img) environment \<Rightarrow> dict \<Rightarrow> real \<Rightarrow> string \<Rightarrow> dict \<times> nat" where
  "predict_gee env data noise now =
     (if \<not> GEE_AVAILABLE env \<or> gee_integration env = None
      then ([(''error'', JStr ''GEE integration not available'')], 400)
      else if \<not> truthy (get_default data ''use_gee'' (JBool True))
      then ([(''error'', JStr ''GEE prediction requested but use_gee is False'')], 400)
      else
        case
          and_then (get_weekly_sentinel2_data (the (gee_integration env)) (request_aoi env data))
            (\<lambda>gee_image.
          and_then (get_weekly_summary (the (gee_integration env)) gee_image) (\<lambda>summary.
          and_then (getitem summary ''ndvi_mean'') (\<lambda>ndvi_mean_value.
          and_then (as_number ndvi_mean_value) (\<lambda>ndvi_mean.
          Inr (predictions_response summary ndvi_mean noise now)))))
        of Inl e \<Rightarrow> ([(''error'', JStr (str_exc e))], 500)
         | Inr body \<Rightarrow> (body, 200))"

text \<open>The answer without its \<^verbatim>\<open>'timestamp'\<close> entry.\<close>

definition without_timestamp :: "dict \<times> nat \<Rightarrow> dict \<times> nat" where
  "without_timestamp r = (AList.delete ''timestamp'' (fst r), snd r)"

section \<open>Example inputs\<close>

text \<open>The band set of the end-to-end scenario: one pixel per band.\<close>

definition scenario_bands :: "string \<rightharpoonup> real list" where
  "scenario_bands = [''B02'' \<mapsto> [100], ''B04'' \<mapsto> [200], ''B05'' \<mapsto> [150], ''B08'' \<mapsto> [800]]"

text \<open>An integer of 401 digits, as a JSON request may carry it.\<close>

definition huge_int :: int where
  "huge_int = 10 ^ 400"

text \<open>A band set of one pixel in which the three bands read 2.\<close>

definition flat_bands :: "string \<rightharpoonup> real list" where
  "flat_bands = [''B02'' \<mapsto> [2], ''B04'' \<mapsto> [2], ''B08'' \<mapsto> [2]]"

text \<open>
  An environment in demo mode: the provider answers every area of interest with the
  same summary and the geometry constructor accepts every point. Its \<^verbatim>\<open>float\<close> is a
  stand-in that reads the strings of decimal digits and raises on every other string;
  it is used below on \<^verbatim>\<open>"north"\<close> only, on which Python's \<^verbatim>\<open>float\<close> raises too.
\<close>

definition digits_value :: "string \<Rightarrow> nat" where
  "digits_value s = foldl (\<lambda>n c. 10 * n + (of_char c - 48)) (0::nat) s"

definition demo_float_of_str :: "string \<Rightarrow> npfloat option" where
  "demo_float_of_str s =
     (if s \<noteq> [] \<and> list_all (\<lambda>c. c \<in> set ''0123456789'') s
      then Some (Finite (of_nat (digits_value s))) else None)"

definition demo_gee :: "(npfloat \<times> npfloat \<times> real, unit) GEEIntegration" where
  "demo_gee =
     \<lparr> mode = Demo,
       get_weekly_sentinel2_data = (\<lambda>aoi. Inr ()),
       get_weekly_summary = (\<lambda>img. Inr [(''ndvi_mean'', JNum 0.5)]) \<rparr>"

definition demo_env :: "(npfloat \<times> npfloat \<times> real, unit) environment" where
  "demo_env =
     \<lparr> GEE_AVAILABLE = True,
       gee_integration = Some demo_gee,
       ee_point_buffer = (\<lambda>x y r. Inr (x, y, r)),
       float_of_str = demo_float_of_str \<rparr>"

section \<open>Auxiliary facts\<close>

lemma and_then_Inr_iff: "and_then x f = Inr b \<longleftrightarrow> (\<exists>v. x = Inr v \<and> f v = Inr b)"
  by (cases x) auto

lemma and_then_assoc: "and_then (and_then x f) g = and_then x (\<lambda>v. and_then (f v) g)"
  by (cases x) auto

lemma thresholds_values:
  "the (NUTRIENT_THRESHOLDS ''nitrogen_low'') = 80"
  "the (NUTRIENT_THRESHOLDS ''nitrogen_medium'') = 120"
  by (simp_all add: NUTRIENT_THRESHOLDS_def)

subsection \<open>Rounding and formatting\<close>

lemma round_half_even_near: "\<bar>of_int (round_half_even x) - x\<bar> \<le> 1 / 2"
  unfolding round_half_even_def Let_def by (auto simp: abs_if) linarith+

lemma round_half_even_nonneg: "0 \<le> x \<Longrightarrow> 0 \<le> round_half_even x"
  unfolding round_half_even_def Let_def by auto

lemma format_0f_nonneg: "0 \<le> x \<Longrightarrow> format_0f x = show_nat (nat (round_half_even x))"
  using round_half_even_nonneg [of x] by (simp add: format_0f_def)

lemma format_0f_examples: "format_0f 20 = ''20''" "format_0f 0 = ''0''" "format_0f 19.75 = ''20''"
  by (simp_all add: format_0f_def round_half_even_def show_nat.simps digit_char_def)

subsection \<open>The index formulas on arrays of one shape\<close>

lemma np_clip_in_range: "in_unit_range (np_clip v (-1) 1) \<longleftrightarrow> v \<noteq> NaN"
  by (cases v) (auto simp: clip_def)

lemma true_divide_NaN: "true_divide x y = NaN \<longleftrightarrow> x = 0 \<and> y = 0"
  by (auto simp: true_divide_def)

lemma ndvi_same_length:
  "length nir = length red \<Longrightarrow>
   ndvi nir red =
     Inr (map2 (\<lambda>n r. np_clip (true_divide (n - r) (n + r + 0.00000001)) (-1) 1) nir red)"
  by (induction nir red rule: list_induct2) (simp_all add: ndvi_def broadcast2_def)

lemma ndre_same_length:
  "length nir = length red_edge \<Longrightarrow>
   ndre nir red_edge =
     Inr (map2 (\<lambda>n r. np_clip (true_divide (n - r) (n + r + 0.00000001)) (-1) 1) nir red_edge)"
  by (induction nir red_edge rule: list_induct2) (simp_all add: ndre_def broadcast2_def)

lemma evi_same_length:
  "length nir = length red \<Longrightarrow> length red = length blue \<Longrightarrow>
   evi nir red blue =
     Inr (map (\<lambda>(n, r, b). np_clip (true_divide (2.5 * (n - r)) (n + 6 * r - 7.5 * b + 1)) (-1) 1)
            (zip nir (zip red blue)))"
  by (induction nir red blue rule: list_induct3) (simp_all add: evi_def broadcast2_def)

text \<open>
  With the epsilon in the divisor, NDVI is a number of \<open>[-1, 1]\<close> at every pixel of
  non-negative bands. (NDRE is the same formula on the red-edge band.)
\<close>

lemma ndvi_nonneg_in_range:
  assumes "length nir = length red" "\<forall>x \<in> set nir. 0 \<le> x" "\<forall>x \<in> set red. 0 \<le> x"
  shows "\<exists>q. ndvi nir red = Inr q \<and> length q = length nir \<and> list_all in_unit_range q"
proof -
  have "in_unit_range (np_clip (true_divide (n - r) (n + r + 0.00000001)) (-1) 1)"
    if "(n, r) \<in> set (zip nir red)" for n r
  proof -
    from that have "n \<in> set nir" "r \<in> set red"
      by (auto dest: set_zip_leftD set_zip_rightD)
    with assms have "0 \<le> n" "0 \<le> r" by auto
    then have "n + r + 0.00000001 \<noteq> 0" by simp
    then show ?thesis by (simp add: np_clip_in_range true_divide_NaN)
  qed
  then show ?thesis using assms(1)
    by (auto simp: ndvi_same_length list_all_iff)
qed

text \<open>
  The divisor of EVI has no epsilon: a pixel of EVI is a number of \<open>[-1, 1]\<close> unless
  dividend and divisor are both zero.
\<close>

lemma evi_pixel_in_range_iff:
  "evi [n] [r] [b] = Inr [v] \<Longrightarrow>
   in_unit_range v \<longleftrightarrow> \<not> (n = r \<and> n + 6 * r - 7.5 * b + 1 = 0)"
  by (auto simp: evi_same_length np_clip_in_range true_divide_NaN)

subsection \<open>The answers of the endpoint\<close>

lemma get_delete_same: "get (AList.delete k d) k = JNull"
  by (simp add: get_def get_default_def delete_conv')

lemma get_default_delete_other:
  "k' \<noteq> k \<Longrightarrow> get_default (AList.delete k d) k' v = get_default d k' v"
  by (simp add: get_default_def)

text \<open>
  An answer is either an error, the same at every clock reading, or the dictionary of
  the predictions for one summary and one \<^verbatim>\<open>ndvi_mean\<close>.
\<close>

lemma predict_gee_outcome:
  "(\<exists>msg code. code \<noteq> 200 \<and> (\<forall>t. predict_gee env data noise t = ([(''error'', JStr msg)], code)))
   \<or> (\<exists>summary x. \<forall>t. predict_gee env data noise t = (predictions_response summary x noise t, 200))"
proof -
  define fetch where "fetch =
     and_then (get_weekly_sentinel2_data (the (gee_integration env)) (request_aoi env data))
       (\<lambda>gee_image.
     and_then (get_weekly_summary (the (gee_integration env)) gee_image) (\<lambda>summary.
     and_then (getitem summary ''ndvi_mean'') (\<lambda>ndvi_mean_value.
     and_then (as_number ndvi_mean_value) (\<lambda>ndvi_mean. Inr (summary, ndvi_mean)))))"
  have chain:
    "and_then (get_weekly_sentinel2_data (the (gee_integration env)) (request_aoi env data))
       (\<lambda>gee_image.
     and_then (get_weekly_summary (the (gee_integration env)) gee_image) (\<lambda>summary.
     and_then (getitem summary ''ndvi_mean'') (\<lambda>ndvi_mean_value.
     and_then (as_number ndvi_mean_value) (\<lambda>ndvi_mean.
     Inr (predictions_response summary ndvi_mean noise t)))))
     = and_then fetch (\<lambda>(summary, x). Inr (predictions_response summary x noise t))" for t
    by (simp add: fetch_def and_then_assoc)
  show ?thesis
  proof (cases "\<not> GEE_AVAILABLE env \<or> gee_integration env = None")
    case True
    then have "\<forall>t. predict_gee env data noise t
        = ([(''error'', JStr ''GEE integration not available'')], 400)"
      by (simp add: predict_gee_def)
    then show ?thesis by fastforce
  next
    case available: False
    show ?thesis
    proof (cases "truthy (get_default data ''use_gee'' (JBool True))")
      case False
      with available
      have "\<forall>t. predict_gee env data noise t
          = ([(''error'', JStr ''GEE prediction requested but use_gee is False'')], 400)"
        by (simp add: predict_gee_def)
      then show ?thesis by fastforce
    next
      case use_gee: True
      show ?thesis
      proof (cases fetch)
        case (Inl e)
        with available use_gee
        have "\<forall>t. predict_gee env data noise t = ([(''error'', JStr (str_exc e))], 500)"
          unfolding predict_gee_def chain by simp
        then show ?thesis by fastforce
      next
        case (Inr p)
        with available use_gee
        have "\<forall>t. predict_gee env data noise t
            = (predictions_response (fst p) (snd p) noise t, 200)"
          unfolding predict_gee_def chain by (simp add: case_prod_beta)
        then show ?thesis by blast
      qed
    qed
  qed
qed

lemma huge_int_overflows: "\<not> int_fits_float huge_int"
  by (simp add: int_fits_float_def huge_int_def)

text \<open>The answer of the demo environment to a request without coordinates.\<close>

lemma predict_gee_demo:
  "predict_gee demo_env [] 0 t =
     ([(''success'', JBool True),
       (''predictions'', JObj
          [(''growth_stage'', JStr ''tuber_bulking''),
           (''nitrogen_level'', JNum 130),
           (''ndvi_mean'', JNum 0.5)]),
       (''recommendations'', JObj
          [(''growth_stage'', JStr ''tuber_bulking''),
           (''nitrogen_level'', JNum 130),
           (''nitrogen_status'', JStr ''high''),
           (''recommendations'', JObj
              [(''irrigation'', JStr ''Apply 2500-3000 L/ha weekly, maximum water requirement''),
               (''fertilizer'', JStr ''Apply 30 kg/ha N + 60 kg/ha K''),
               (''management'', JStr ''Critical stage for yield, maintain optimal conditions'')])]),
       (''timestamp'', JStr t),
       (''data_source'', JStr ''Google Earth Engine''),
       (''gee_summary'', JObj [(''ndvi_mean'', JNum 0.5)])], 200)"
  by (simp add: predict_gee_def predictions_response_def request_aoi_def Let_def demo_env_def
      demo_gee_def get_def get_default_def getitem_def predict_growth_stage_def
      predict_nitrogen_level_def clip_def generate_recommendations_def NUTRIENT_THRESHOLDS_def
      format_0f_def round_half_even_def show_nat.simps digit_char_def)

section \<open>Vegetation indices: range and missing bands\<close>

text \<open>
  Claim C1: for every band set of finite values, every value of NDVI, NDRE and EVI lies
  within \<open>[-1, 1]\<close>, and no division by zero produces NaN or an infinity.
  The code does not keep this. NDVI and NDRE add the epsilon to their divisors, EVI does
  not: on the band set \<open>flat_bands\<close> (B08 = B04 = B02 = 2, one pixel) the divisor of EVI
  is \<open>2 + 6 \<sqdot> 2 - 7.5 \<sqdot> 2 + 1 = 0\<close> and its dividend is \<open>2.5 \<sqdot> (2 - 2) = 0\<close>, so the
  pixel is NaN, the clip leaves it NaN, and the result holds a value outside \<open>[-1, 1]\<close>.
\<close>

theorem evi_nan_on_flat_bands:
  "compute_vegetation_indices flat_bands = Inr [''NDVI'' \<mapsto> [Finite 0], ''EVI'' \<mapsto> [NaN]]
   \<and> \<not> in_unit_range NaN"
  by (simp add: compute_vegetation_indices_def flat_bands_def ndvi_def evi_def broadcast2_def
      true_divide_def clip_def)

text \<open>
  Claim C5: a missing band makes the index that needs it absent from the result and
  raises nothing; without B08 the result has none of NDVI, NDRE and EVI.
  Without B08 the function returns the empty mapping. Whenever it returns, each index is a
  key exactly when all its bands are keys, and there is no other key. It returns for
  every band set whose arrays have one length, whichever bands are missing.
\<close>

theorem missing_band_absent:
  "(''B08'' \<notin> dom bands \<longrightarrow> compute_vegetation_indices bands = Inr Map.empty)
   \<and> (\<forall>indices. compute_vegetation_indices bands = Inr indices \<longrightarrow>
        (''NDVI'' \<in> dom indices \<longleftrightarrow> ''B08'' \<in> dom bands \<and> ''B04'' \<in> dom bands)
      \<and> (''NDRE'' \<in> dom indices \<longleftrightarrow> ''B08'' \<in> dom bands \<and> ''B05'' \<in> dom bands)
      \<and> (''EVI'' \<in> dom indices \<longleftrightarrow>
           ''B08'' \<in> dom bands \<and> ''B04'' \<in> dom bands \<and> ''B02'' \<in> dom bands)
      \<and> dom indices \<subseteq> {''NDVI'', ''NDRE'', ''EVI''})
   \<and> ((\<forall>k \<in> dom bands. \<forall>k' \<in> dom bands. length (the (bands k)) = length (the (bands k')))
        \<longrightarrow> (\<exists>indices. compute_vegetation_indices bands = Inr indices))"
proof -
  have absent: "''B08'' \<notin> dom bands \<longrightarrow> compute_vegetation_indices bands = Inr Map.empty"
    by (simp add: compute_vegetation_indices_def)
  have keys: "\<forall>indices. compute_vegetation_indices bands = Inr indices \<longrightarrow>
        (''NDVI'' \<in> dom indices \<longleftrightarrow> ''B08'' \<in> dom bands \<and> ''B04'' \<in> dom bands)
      \<and> (''NDRE'' \<in> dom indices \<longleftrightarrow> ''B08'' \<in> dom bands \<and> ''B05'' \<in> dom bands)
      \<and> (''EVI'' \<in> dom indices \<longleftrightarrow>
           ''B08'' \<in> dom bands \<and> ''B04'' \<in> dom bands \<and> ''B02'' \<in> dom bands)
      \<and> dom indices \<subseteq> {''NDVI'', ''NDRE'', ''EVI''}"
    by (auto simp: compute_vegetation_indices_def and_then_Inr_iff split: if_splits)
  have returns: "\<exists>indices. compute_vegetation_indices bands = Inr indices"
    if same: "\<forall>k \<in> dom bands. \<forall>k' \<in> dom bands. length (the (bands k)) = length (the (bands k'))"
  proof -
    have a: "''B08'' \<in> dom bands \<Longrightarrow> ''B04'' \<in> dom bands \<Longrightarrow>
        length (the (bands ''B08'')) = length (the (bands ''B04''))"
      and b: "''B08'' \<in> dom bands \<Longrightarrow> ''B05'' \<in> dom bands \<Longrightarrow>
        length (the (bands ''B08'')) = length (the (bands ''B05''))"
      and c: "''B04'' \<in> dom bands \<Longrightarrow> ''B02'' \<in> dom bands \<Longrightarrow>
        length (the (bands ''B04'')) = length (the (bands ''B02''))"
      using same by blast+
    have n: "''B08'' \<in> dom bands \<Longrightarrow> ''B04'' \<in> dom bands \<Longrightarrow>
        \<exists>q. ndvi (the (bands ''B08'')) (the (bands ''B04'')) = Inr q"
      using ndvi_same_length [OF a] by blast
    have r: "''B08'' \<in> dom bands \<Longrightarrow> ''B05'' \<in> dom bands \<Longrightarrow>
        \<exists>q. ndre (the (bands ''B08'')) (the (bands ''B05'')) = Inr q"
      using ndre_same_length [OF b] by blast
    have e: "''B08'' \<in> dom bands \<Longrightarrow> ''B04'' \<in> dom bands \<Longrightarrow> ''B02'' \<in> dom bands \<Longrightarrow>
        \<exists>q. evi (the (bands ''B08'')) (the (bands ''B04'')) (the (bands ''B02'')) = Inr q"
      using evi_same_length [OF a c] by blast
    show ?thesis
      unfolding compute_vegetation_indices_def
      using n r e
      by (cases "''B08'' \<in> dom bands"; cases "''B04'' \<in> dom bands";
          cases "''B05'' \<in> dom bands"; cases "''B02'' \<in> dom bands") auto
  qed
  from absent keys returns show ?thesis by blast
qed

theorem missing_band_absent_witness:
  "compute_vegetation_indices [''B04'' \<mapsto> [200], ''B02'' \<mapsto> [100]] = Inr Map.empty
   \<and> (\<exists>indices. compute_vegetation_indices scenario_bands = Inr indices
         \<and> dom indices = {''NDVI'', ''NDRE'', ''EVI''})"
  using missing_band_absent [of "[''B04'' \<mapsto> [200], ''B02'' \<mapsto> [100]]"]
    missing_band_absent [of scenario_bands]
  by (auto simp: scenario_bands_def)

text \<open>
  Claim C9: for the one-pixel band set B02 = 100, B04 = 200, B05 = 150, B08 = 800 the
  result is NDVI = 0.6 and NDRE = 0.68, with EVI by its formula and all three clipped to
  \<open>[-1, 1]\<close>; and \<^verbatim>\<open>ndvi_mean = 0.6\<close> is classified as tuber_bulking.
  The figures hold at the precision they are written with. NDVI is
  \<open>600 / (1000 + 10\<^sup>-\<^sup>8)\<close>, which is 0.6 up to the epsilon of the divisor (less than
  \<open>10\<^sup>-\<^sup>1\<^sup>1\<close> away); NDRE is \<open>650 / (950 + 10\<^sup>-\<^sup>8)\<close>, which is 0.68 to two decimals
  (less than 0.005 away); EVI is \<open>2.5 \<sqdot> 600 / 1251 = 1500 / 1251\<close> by its formula, above
  1 and so clipped to 1. The three values are within \<open>[-1, 1]\<close>, and an \<^verbatim>\<open>ndvi_mean\<close>
  of 0.6, as well as the NDVI computed here, is classified as tuber_bulking.
\<close>

theorem scenario_indices_values:
  "compute_vegetation_indices scenario_bands =
     Inr [''NDVI'' \<mapsto> [Finite (600 / (1000 + 0.00000001))],
          ''NDRE'' \<mapsto> [Finite (650 / (950 + 0.00000001))],
          ''EVI'' \<mapsto> [Finite 1]]
   \<and> \<bar>600 / (1000 + 0.00000001) - 0.6\<bar> < (0.00000000001 :: real)
   \<and> \<bar>650 / (950 + 0.00000001) - 0.68\<bar> < (0.005 :: real)
   \<and> true_divide (2.5 * (800 - 200)) (800 + 6 * 200 - 7.5 * 100 + 1) = Finite (1500 / 1251)
   \<and> np_clip (Finite (1500 / 1251)) (-1) 1 = Finite 1
   \<and> in_unit_range (Finite (600 / (1000 + 0.00000001)))
   \<and> in_unit_range (Finite (650 / (950 + 0.00000001)))
   \<and> in_unit_range (Finite 1)
   \<and> predict_growth_stage 0.6 = ''tuber_bulking''
   \<and> predict_growth_stage (600 / (1000 + 0.00000001)) = ''tuber_bulking''"
proof -
  have "compute_vegetation_indices scenario_bands =
     Inr [''NDVI'' \<mapsto> [Finite (600 / (1000 + 0.00000001))],
          ''NDRE'' \<mapsto> [Finite (650 / (950 + 0.00000001))],
          ''EVI'' \<mapsto> [Finite 1]]"
    by (simp add: compute_vegetation_indices_def scenario_bands_def ndvi_def ndre_def evi_def
        broadcast2_def true_divide_def clip_def)
  moreover have "\<bar>600 / (1000 + 0.00000001) - 0.6\<bar> < (0.00000000001 :: real)"
    "\<bar>650 / (950 + 0.00000001) - 0.68\<bar> < (0.005 :: real)"
    by simp_all
  moreover have "true_divide (2.5 * (800 - 200)) (800 + 6 * 200 - 7.5 * 100 + 1)
      = Finite (1500 / 1251)"
    by (simp add: true_divide_def)
  moreover have "np_clip (Finite (1500 / 1251)) (-1) 1 = Finite 1"
    by (simp add: clip_def)
  moreover have "predict_growth_stage 0.6 = ''tuber_bulking''"
    "predict_growth_stage (600 / (1000 + 0.00000001)) = ''tuber_bulking''"
    by (simp_all add: predict_growth_stage_def)
  ultimately show ?thesis by simp
qed

section \<open>Growth stage, nitrogen level and recommendations\<close>

text \<open>
  Claim C2: the growth stage is vegetative for \<^verbatim>\<open>ndvi_mean < 0.3\<close>, tuber_initiation
  for \<^verbatim>\<open>0.3 <= ndvi_mean < 0.5\<close>, tuber_bulking for \<^verbatim>\<open>0.5 <= ndvi_mean < 0.7\<close> and
  maturation from 0.7 on, the first matching threshold winning; 0.29, 0.3, 0.69 and 0.7
  give vegetative, tuber_initiation, tuber_bulking and maturation.
\<close>

theorem growth_stage_thresholds:
  "(x < 0.3 \<longrightarrow> predict_growth_stage x = ''vegetative'')
   \<and> (0.3 \<le> x \<and> x < 0.5 \<longrightarrow> predict_growth_stage x = ''tuber_initiation'')
   \<and> (0.5 \<le> x \<and> x < 0.7 \<longrightarrow> predict_growth_stage x = ''tuber_bulking'')
   \<and> (0.7 \<le> x \<longrightarrow> predict_growth_stage x = ''maturation'')
   \<and> predict_growth_stage 0.29 = ''vegetative''
   \<and> predict_growth_stage 0.3 = ''tuber_initiation''
   \<and> predict_growth_stage 0.69 = ''tuber_bulking''
   \<and> predict_growth_stage 0.7 = ''maturation''"
  by (simp add: predict_growth_stage_def)

theorem growth_stage_thresholds_witness:
  "predict_growth_stage 0.1 = ''vegetative''
   \<and> predict_growth_stage 0.4 = ''tuber_initiation''
   \<and> predict_growth_stage 0.6 = ''tuber_bulking''
   \<and> predict_growth_stage 0.9 = ''maturation''"
  using growth_stage_thresholds [of "0.1"] growth_stage_thresholds [of "0.4"]
    growth_stage_thresholds [of "0.6"] growth_stage_thresholds [of "0.9"]
  by simp

text \<open>
  Claim C3: for every \<^verbatim>\<open>ndvi_mean\<close> and every noise the nitrogen level is
  \<open>clip(80 + 100 \<sqdot> ndvi_mean + noise, 40, 200)\<close>, hence within \<open>[40, 200]\<close>; with noise 0
  and \<^verbatim>\<open>ndvi_mean = 0.5\<close> it is 130. The value is the one the answer carries.
\<close>

theorem nitrogen_level_clipped:
  "predict_nitrogen_level ndvi_mean noise = clip (80 + 100 * ndvi_mean + noise) 40 200
   \<and> 40 \<le> predict_nitrogen_level ndvi_mean noise
   \<and> predict_nitrogen_level ndvi_mean noise \<le> 200
   \<and> predict_nitrogen_level 0.5 0 = 130
   \<and> map_of (predictions_response summary ndvi_mean noise now) ''predictions'' =
       Some (JObj
         [(''growth_stage'', JStr (predict_growth_stage ndvi_mean)),
          (''nitrogen_level'', JNum (clip (80 + 100 * ndvi_mean + noise) 40 200)),
          (''ndvi_mean'', JNum ndvi_mean)])"
  by (simp add: predict_nitrogen_level_def predictions_response_def clip_def Let_def mult.commute)

text \<open>
  Claim C10: the result of \<^verbatim>\<open>generate_recommendations\<close> has exactly the keys
  growth_stage, nitrogen_level, nitrogen_status and recommendations, carries both
  arguments unchanged, and its nitrogen_status is low below 80, medium from 80 up to but
  not including 120, and high otherwise.
\<close>

theorem recommendations_frame:
  "map fst (generate_recommendations growth_stage n)
     = [''growth_stage'', ''nitrogen_level'', ''nitrogen_status'', ''recommendations'']
   \<and> map_of (generate_recommendations growth_stage n) ''growth_stage'' = Some (JStr growth_stage)
   \<and> map_of (generate_recommendations growth_stage n) ''nitrogen_level'' = Some (JNum n)
   \<and> (n < 80 \<longrightarrow>
        map_of (generate_recommendations growth_stage n) ''nitrogen_status'' = Some (JStr ''low''))
   \<and> (80 \<le> n \<and> n < 120 \<longrightarrow>
        map_of (generate_recommendations growth_stage n) ''nitrogen_status''
          = Some (JStr ''medium''))
   \<and> (120 \<le> n \<longrightarrow>
        map_of (generate_recommendations growth_stage n) ''nitrogen_status''
          = Some (JStr ''high''))"
  by (simp add: generate_recommendations_def thresholds_values Let_def)

theorem recommendations_frame_witness:
  "map_of (generate_recommendations ''vegetative'' 79.5) ''nitrogen_status'' = Some (JStr ''low'')
   \<and> map_of (generate_recommendations ''maturation'' 80) ''nitrogen_status''
       = Some (JStr ''medium'')
   \<and> map_of (generate_recommendations ''harvested'' 120) ''nitrogen_status''
       = Some (JStr ''high'')
   \<and> map fst (generate_recommendations ''harvested'' 120)
       = [''growth_stage'', ''nitrogen_level'', ''nitrogen_status'', ''recommendations'']"
  using recommendations_frame [of "''vegetative''" "79.5"]
    recommendations_frame [of "''maturation''" 80]
    recommendations_frame [of "''harvested''" 120]
  by simp

text \<open>
  Claim C4: the fertilizer dose of \<^verbatim>\<open>generate_recommendations\<close> equals
  \<open>max(0, target - nitrogen_level)\<close> kg/ha, with target 120 for vegetative, 140 for
  tuber_initiation and 160 (plus 60 K) for tuber_bulking, and maturation has no nitrogen
  dose; a vegetative field at 100 gets 20 and a tuber_bulking field at 200 gets 0.
  The dose that the text recommends is that amount printed without decimals: at a
  nitrogen level of 100.25 the amount is 19.75 and the text says 20.
\<close>

theorem fertilizer_dose_is_rounded:
  "fertilizer_text (generate_recommendations ''vegetative'' 100.25)
     = Some ''Apply 20 kg/ha N as basal dose''
   \<and> max 0 (120 - 100.25) = (19.75 :: real)"
  by (simp add: fertilizer_text_def generate_recommendations_def format_0f_def
      round_half_even_def show_nat.simps digit_char_def)

text \<open>
  Claim C4, amended: the dose in the fertilizer text is \<open>max(0, target - nitrogen_level)\<close>
  rounded to a whole number (the nearest one, a tie going to the even one, so never more
  than one half away), with target 120 for vegetative, 140 for tuber_initiation and
  160 (plus 60 K) for tuber_bulking; maturation has the text without a nitrogen dose; a
  vegetative field at 100 gets 20 and a tuber_bulking field at 200 gets 0.
\<close>

theorem fertilizer_dose_rounded:
  "fertilizer_text (generate_recommendations ''vegetative'' n)
     = Some (''Apply '' @ show_nat (nat (round_half_even (max 0 (120 - n))))
          @ '' kg/ha N as basal dose'')
   \<and> fertilizer_text (generate_recommendations ''tuber_initiation'' n)
     = Some (''Apply '' @ show_nat (nat (round_half_even (max 0 (140 - n))))
          @ '' kg/ha N as top dressing'')
   \<and> fertilizer_text (generate_recommendations ''tuber_bulking'' n)
     = Some (''Apply '' @ show_nat (nat (round_half_even (max 0 (160 - n))))
          @ '' kg/ha N + 60 kg/ha K'')
   \<and> fertilizer_text (generate_recommendations ''maturation'' n)
     = Some ''No additional N required, focus on K for quality''
   \<and> 0 \<le> round_half_even (max 0 (target - n))
   \<and> \<bar>of_int (round_half_even (max 0 (target - n))) - max 0 (target - n)\<bar> \<le> 1 / 2
   \<and> fertilizer_text (generate_recommendations ''vegetative'' 100)
     = Some ''Apply 20 kg/ha N as basal dose''
   \<and> fertilizer_text (generate_recommendations ''tuber_bulking'' 200)
     = Some ''Apply 0 kg/ha N + 60 kg/ha K''"
proof -
  have fmt: "format_0f (max 0 (t - n)) = show_nat (nat (round_half_even (max 0 (t - n))))" for t
    by (rule format_0f_nonneg) simp
  have general:
    "fertilizer_text (generate_recommendations ''vegetative'' n)
       = Some (''Apply '' @ show_nat (nat (round_half_even (max 0 (120 - n))))
            @ '' kg/ha N as basal dose'')"
    "fertilizer_text (generate_recommendations ''tuber_initiation'' n)
       = Some (''Apply '' @ show_nat (nat (round_half_even (max 0 (140 - n))))
            @ '' kg/ha N as top dressing'')"
    "fertilizer_text (generate_recommendations ''tuber_bulking'' n)
       = Some (''Apply '' @ show_nat (nat (round_half_even (max 0 (160 - n))))
            @ '' kg/ha N + 60 kg/ha K'')"
    "fertilizer_text (generate_recommendations ''maturation'' n)
       = Some ''No additional N required, focus on K for quality''"
    by (simp_all add: fertilizer_text_def generate_recommendations_def fmt [symmetric])
  have concrete:
    "fertilizer_text (generate_recommendations ''vegetative'' 100)
       = Some ''Apply 20 kg/ha N as basal dose''"
    "fertilizer_text (generate_recommendations ''tuber_bulking'' 200)
       = Some ''Apply 0 kg/ha N + 60 kg/ha K''"
    by (simp_all add: fertilizer_text_def generate_recommendations_def format_0f_examples)
  have "0 \<le> round_half_even (max 0 (target - n))"
    by (rule round_half_even_nonneg) simp
  with general concrete round_half_even_near [of "max 0 (target - n)"]
  show ?thesis by blast
qed

section \<open>The prediction endpoint: coordinates, shape of the answer, repeated runs\<close>

text \<open>
  Claim C6: a request whose latitude or longitude is out of range or not numeric is
  answered at once with an InvalidInputError, a typed failure, and nothing is computed;
  the error is never swallowed.
  The code has no such error. In the demo environment a request with the latitude
  \<^verbatim>\<open>"north"\<close> gets the answer of a request without coordinates, with status 200, and
  so does a request with the latitude 999.
\<close>

theorem invalid_coordinates_answered:
  "predict_gee demo_env [(''lat'', JStr ''north''), (''lon'', JNum 76.9558)] 0
       ''2025-01-01T00:00:00''
     = predict_gee demo_env [] 0 ''2025-01-01T00:00:00''
   \<and> snd (predict_gee demo_env [(''lat'', JStr ''north''), (''lon'', JNum 76.9558)] 0
       ''2025-01-01T00:00:00'') = 200
   \<and> snd (predict_gee demo_env [(''lat'', JNum 999), (''lon'', JNum 76.9558)] 0
       ''2025-01-01T00:00:00'') = 200"
  by (simp add: predict_gee_def request_aoi_def Let_def demo_env_def demo_gee_def get_def
      get_default_def make_aoi_def demo_float_of_str_def getitem_def)

text \<open>
  Claim C6, amended: the code has no InvalidInputError and checks no range. When
  \<^verbatim>\<open>float\<close> cannot convert a coordinate (a value that is not numeric, or an integer
  too large for a float) or the construction of the area of interest raises, the
  exception is caught and the request is answered exactly as the same request without
  \<^verbatim>\<open>lat\<close> and \<^verbatim>\<open>lon\<close>. When \<^verbatim>\<open>float\<close> converts both coordinates, whatever
  their values, and the constructor returns an area for them, the answer is the one that
  the data provider gives for that area: its exception as status 500, or the predictions
  from its summary. A float coordinate is converted to itself, whatever its size.
\<close>

theorem invalid_coordinates_swallowed:
  "(make_aoi env (get data ''lon'') (get data ''lat'') = Inl e \<longrightarrow>
      predict_gee env data noise now
        = predict_gee env (AList.delete ''lat'' (AList.delete ''lon'' data)) noise now)
   \<and> (GEE_AVAILABLE env \<and> gee_integration env = Some g
        \<and> truthy (get_default data ''use_gee'' (JBool True))
        \<and> py_float (float_of_str env) (get data ''lon'') = Inr x
        \<and> py_float (float_of_str env) (get data ''lat'') = Inr y
        \<and> ee_point_buffer env x y 1000 = Inr a \<longrightarrow>
      predict_gee env data noise now =
        (case
           and_then (get_weekly_sentinel2_data g (Some a)) (\<lambda>gee_image.
           and_then (get_weekly_summary g gee_image) (\<lambda>summary.
           and_then (getitem summary ''ndvi_mean'') (\<lambda>ndvi_mean_value.
           and_then (as_number ndvi_mean_value) (\<lambda>ndvi_mean.
           Inr (predictions_response summary ndvi_mean noise now)))))
         of Inl e \<Rightarrow> ([(''error'', JStr (str_exc e))], 500)
          | Inr body \<Rightarrow> (body, 200)))
   \<and> py_float (float_of_str env) (JNum v) = Inr (Finite v)"
proof -
  have swallowed: "make_aoi env (get data ''lon'') (get data ''lat'') = Inl e \<longrightarrow>
      predict_gee env data noise now
        = predict_gee env (AList.delete ''lat'' (AList.delete ''lon'' data)) noise now"
    by (simp add: predict_gee_def request_aoi_def Let_def get_delete_same
        get_default_delete_other)
  have passed: "predict_gee env data noise now =
        (case
           and_then (get_weekly_sentinel2_data g (Some a)) (\<lambda>gee_image.
           and_then (get_weekly_summary g gee_image) (\<lambda>summary.
           and_then (getitem summary ''ndvi_mean'') (\<lambda>ndvi_mean_value.
           and_then (as_number ndvi_mean_value) (\<lambda>ndvi_mean.
           Inr (predictions_response summary ndvi_mean noise now)))))
         of Inl e \<Rightarrow> ([(''error'', JStr (str_exc e))], 500)
          | Inr body \<Rightarrow> (body, 200))"
    if env: "GEE_AVAILABLE env" "gee_integration env = Some g"
      "truthy (get_default data ''use_gee'' (JBool True))"
      and lon: "py_float (float_of_str env) (get data ''lon'') = Inr x"
      and lat: "py_float (float_of_str env) (get data ''lat'') = Inr y"
      and area: "ee_point_buffer env x y 1000 = Inr a"
  proof -
    from lon have "get data ''lon'' \<noteq> JNull" by auto
    moreover from lat have "get data ''lat'' \<noteq> JNull" by auto
    moreover have "make_aoi env (get data ''lon'') (get data ''lat'') = Inr a"
      by (simp add: make_aoi_def lon lat area)
    ultimately have "request_aoi env data = Some a"
      by (simp add: request_aoi_def Let_def)
    with env show ?thesis
      by (simp add: predict_gee_def)
  qed
  from swallowed passed show ?thesis by simp
qed

theorem invalid_coordinates_swallowed_witness:
  "make_aoi demo_env (get [(''lat'', JStr ''north''), (''lon'', JNum 76.9558)] ''lon'')
       (get [(''lat'', JStr ''north''), (''lon'', JNum 76.9558)] ''lat'')
     = Inl (ValueError (''could not convert string to float: '' @ [CHR 39] @ ''north'' @ [CHR 39]))
   \<and> predict_gee demo_env [(''lat'', JStr ''north''), (''lon'', JNum 76.9558)] 0
       ''2025-01-01T00:00:00''
     = predict_gee demo_env [] 0 ''2025-01-01T00:00:00''
   \<and> make_aoi demo_env (get [(''lat'', JInt huge_int), (''lon'', JNum 76.9558)] ''lon'')
       (get [(''lat'', JInt huge_int), (''lon'', JNum 76.9558)] ''lat'')
     = Inl (OverflowError ''int too large to convert to float'')
   \<and> predict_gee demo_env [(''lat'', JInt huge_int), (''lon'', JNum 76.9558)] 0
       ''2025-01-01T00:00:00''
     = predict_gee demo_env [] 0 ''2025-01-01T00:00:00''
   \<and> ee_point_buffer demo_env (Finite 76.9558) (Finite 999) 1000
     = Inr (Finite 76.9558, Finite 999, 1000)
   \<and> predict_gee demo_env [(''lat'', JNum 999), (''lon'', JNum 76.9558)] 0
       ''2025-01-01T00:00:00''
     = (predictions_response [(''ndvi_mean'', JNum 0.5)] 0.5 0 ''2025-01-01T00:00:00'', 200)"
proof -
  have north: "make_aoi demo_env (get [(''lat'', JStr ''north''), (''lon'', JNum 76.9558)] ''lon'')
       (get [(''lat'', JStr ''north''), (''lon'', JNum 76.9558)] ''lat'')
     = Inl (ValueError (''could not convert string to float: '' @ [CHR 39] @ ''north'' @ [CHR 39]))"
    by (simp add: make_aoi_def get_def get_default_def demo_env_def demo_float_of_str_def)
  have huge: "make_aoi demo_env (get [(''lat'', JInt huge_int), (''lon'', JNum 76.9558)] ''lon'')
       (get [(''lat'', JInt huge_int), (''lon'', JNum 76.9558)] ''lat'')
     = Inl (OverflowError ''int too large to convert to float'')"
    by (simp add: make_aoi_def get_def get_default_def demo_env_def huge_int_overflows)
  have area: "ee_point_buffer demo_env (Finite 76.9558) (Finite 999) 1000
     = Inr (Finite 76.9558, Finite 999, 1000)"
    by (simp add: demo_env_def)
  have env: "GEE_AVAILABLE demo_env" "gee_integration demo_env = Some demo_gee"
    by (simp_all add: demo_env_def)
  have "predict_gee demo_env [(''lat'', JStr ''north''), (''lon'', JNum 76.9558)] 0
       ''2025-01-01T00:00:00''
     = predict_gee demo_env [] 0 ''2025-01-01T00:00:00''"
    using invalid_coordinates_swallowed
      [of demo_env "[(''lat'', JStr ''north''), (''lon'', JNum 76.9558)]" _ 0
        "''2025-01-01T00:00:00''"] north
    by simp
  moreover have "predict_gee demo_env [(''lat'', JInt huge_int), (''lon'', JNum 76.9558)] 0
       ''2025-01-01T00:00:00''
     = predict_gee demo_env [] 0 ''2025-01-01T00:00:00''"
    using invalid_coordinates_swallowed
      [of demo_env "[(''lat'', JInt huge_int), (''lon'', JNum 76.9558)]" _ 0
        "''2025-01-01T00:00:00''"] huge
    by simp
  moreover have "predict_gee demo_env [(''lat'', JNum 999), (''lon'', JNum 76.9558)] 0
       ''2025-01-01T00:00:00''
     = (predictions_response [(''ndvi_mean'', JNum 0.5)] 0.5 0 ''2025-01-01T00:00:00'', 200)"
    using invalid_coordinates_swallowed
      [of demo_env "[(''lat'', JNum 999), (''lon'', JNum 76.9558)]" _ 0
        "''2025-01-01T00:00:00''" demo_gee "Finite 76.9558" "Finite 999"
        "(Finite 76.9558, Finite 999, 1000)"] env area
    by (simp add: get_def get_default_def demo_gee_def getitem_def)
  ultimately show ?thesis
    using north huge area by simp
qed

text \<open>
  Claim C7: a successful answer has the keys success, predictions (with growth_stage,
  nitrogen_level and ndvi_mean), recommendations, data_source and gee_summary, and its
  data_source is "Google Earth Engine" for live data and "demo" for demo data.
  With an integration object in demo mode the answer still says "Google Earth Engine",
  and it has a sixth key, timestamp.
\<close>

theorem demo_answer_names_earth_engine:
  "mode demo_gee = Demo
   \<and> gee_integration demo_env = Some demo_gee
   \<and> snd (predict_gee demo_env [] 0 ''2025-01-01T00:00:00'') = 200
   \<and> map_of (fst (predict_gee demo_env [] 0 ''2025-01-01T00:00:00'')) ''data_source''
       \<noteq> Some (JStr ''demo'')
   \<and> map fst (fst (predict_gee demo_env [] 0 ''2025-01-01T00:00:00''))
       \<noteq> [''success'', ''predictions'', ''recommendations'', ''data_source'', ''gee_summary'']"
proof -
  have "mode demo_gee = Demo"
    by (simp add: demo_gee_def)
  moreover have "gee_integration demo_env = Some demo_gee"
    by (simp add: demo_env_def)
  ultimately show ?thesis
    by (simp add: predict_gee_demo)
qed

text \<open>
  Claim C7, amended: a successful answer (status 200) has the keys success, predictions
  (with growth_stage, nitrogen_level and ndvi_mean), recommendations, timestamp,
  data_source and gee_summary, in this order; success is true, timestamp is the clock
  reading, and data_source is "Google Earth Engine" whatever the integration object
  served.
\<close>

theorem success_answer_shape:
  "snd (predict_gee env data noise now) = 200 \<Longrightarrow>
   map fst (fst (predict_gee env data noise now))
     = [''success'', ''predictions'', ''recommendations'', ''timestamp'', ''data_source'',
        ''gee_summary'']
   \<and> map_of (fst (predict_gee env data noise now)) ''success'' = Some (JBool True)
   \<and> map_of (fst (predict_gee env data noise now)) ''data_source''
       = Some (JStr ''Google Earth Engine'')
   \<and> map_of (fst (predict_gee env data noise now)) ''timestamp'' = Some (JStr now)
   \<and> (\<exists>p. map_of (fst (predict_gee env data noise now)) ''predictions'' = Some (JObj p)
         \<and> map fst p = [''growth_stage'', ''nitrogen_level'', ''ndvi_mean''])
   \<and> (\<exists>r. map_of (fst (predict_gee env data noise now)) ''recommendations'' = Some (JObj r))
   \<and> (\<exists>s. map_of (fst (predict_gee env data noise now)) ''gee_summary'' = Some (JObj s))"
  using predict_gee_outcome [of env data noise]
  by (auto simp: predictions_response_def Let_def)

theorem success_answer_shape_witness:
  "snd (predict_gee demo_env [] 0 ''2025-01-01T00:00:00'') = 200
   \<and> map fst (fst (predict_gee demo_env [] 0 ''2025-01-01T00:00:00''))
       = [''success'', ''predictions'', ''recommendations'', ''timestamp'', ''data_source'',
          ''gee_summary'']
   \<and> map_of (fst (predict_gee demo_env [] 0 ''2025-01-01T00:00:00'')) ''data_source''
       = Some (JStr ''Google Earth Engine'')"
  using success_answer_shape [of demo_env "[]" 0 "''2025-01-01T00:00:00''"]
  by (simp add: predict_gee_demo)

text \<open>
  Claim C8: two runs of the pipeline on identical inputs, with the noise fixed, give
  identical output. The answer carries the time of the run: two runs of the same request
  with the same noise one second apart differ.
\<close>

theorem answers_differ_by_clock:
  "predict_gee demo_env [] 0 ''2025-01-01T00:00:00''
     \<noteq> predict_gee demo_env [] 0 ''2025-01-01T00:00:01''"
  by (simp add: predict_gee_demo)

text \<open>
  Claim C8, amended: two runs on identical inputs, with the same answers of the data
  provider and the noise fixed, give answers that are identical in status and in every
  entry but the timestamp.
\<close>

theorem answers_equal_up_to_timestamp:
  "without_timestamp (predict_gee env data noise t1)
     = without_timestamp (predict_gee env data noise t2)"
  using predict_gee_outcome [of env data noise]
  by (auto simp: predictions_response_def Let_def without_timestamp_def)

theorem answers_equal_up_to_timestamp_witness:
  "without_timestamp (predict_gee demo_env [] 0 ''2025-01-01T00:00:00'')
     = without_timestamp (predict_gee demo_env [] 0 ''2025-01-01T00:00:01'')
   \<and> snd (without_timestamp (predict_gee demo_env [] 0 ''2025-01-01T00:00:00'')) = 200
   \<and> map fst (fst (without_timestamp (predict_gee demo_env [] 0 ''2025-01-01T00:00:00'')))
       = [''success'', ''predictions'', ''recommendations'', ''data_source'', ''gee_summary'']"
  using answers_equal_up_to_timestamp
    [of demo_env "[]" 0 "''2025-01-01T00:00:00''" "''2025-01-01T00:00:01''"]
  by (simp add: predict_gee_demo without_timestamp_def)

end
